theory Spec2Isabelle
  imports Main "HOL-Library.Sublist"
begin

section \<open>The diagram rendering server: \<open>packages/python-diagrams-mcp/server.py\<close>\<close>

text \<open>
  The server has one execution primitive, \<open>render_diagram\<close>, and one request handler,
  \<open>call_tool\<close>, whose branch for the tool \<open>diagrams_render\<close> validates the code, renders,
  optionally saves the artifact under \<open>/output\<close> and builds the list of content items.

  Representation of the Python values:
  \<^item> \<open>bytes\<close> is a list of 8-bit characters;
  \<^item> a Python \<open>str\<close> is represented by its UTF-8 encoding, again a list of 8-bit
    characters. Concatenation, \<open>in\<close> and \<open>endswith\<close> are then the list operations
    (UTF-8 is self-synchronising), and \<open>b.decode("utf-8")\<close> is the identity on the
    well-formed byte sequences and raises on every other one;
  \<^item> a dictionary with a fixed set of keys is a record or a datatype.
\<close>

subsection \<open>Values\<close>

type_synonym bytes = "char list"

text \<open>The two content item classes of \<open>mcp.types\<close> the handler builds.\<close>

datatype content =
    TextContent string
  | ImageContent string string  \<comment> \<open>\<open>data\<close>, \<open>mimeType\<close>\<close>

text \<open>
  The dictionary returned by \<open>render_diagram\<close>: either
  \<open>{"success": True, "filename", "content", "mime_type"}\<close> or
  \<open>{"success": False, "error"}\<close>.
\<close>

datatype render_result =
    Success string bytes string  \<comment> \<open>\<open>filename\<close>, \<open>content\<close>, \<open>mime_type\<close>\<close>
  | Failure string               \<comment> \<open>\<open>error\<close>\<close>

text \<open>
  The class of an exception raised by the evaluated program, as far as the three
  \<open>except\<close> clauses of \<open>render_diagram\<close> tell classes apart: \<open>SyntaxError\<close> and its
  subclasses, \<open>ImportError\<close> and its subclasses, every other subclass of \<open>Exception\<close>,
  and the exceptions that derive from \<open>BaseException\<close> only (\<open>SystemExit\<close>,
  \<open>KeyboardInterrupt\<close>, \<open>GeneratorExit\<close>), which no clause catches.
\<close>

datatype exc_class = SyntaxError | ImportError | OtherException | BaseExceptionOnly

text \<open>What leaves a function as a raised exception instead of a returned value.\<close>

datatype raised =
    Uncaught exc_class string  \<comment> \<open>an exception of the evaluated program, with \<open>str(e)\<close>\<close>
  | UnicodeDecodeError

subsection \<open>The host: file system and evaluator\<close>

text \<open>
  The part of the host the handler reads or writes: whether \<open>Path("/output")\<close> exists,
  the regular files by path, and two counters that record the effects of
  \<open>tempfile.TemporaryDirectory()\<close> and of \<open>exec\<close>: how many temporary directories
  have been created and which programs have been evaluated, in order.
  Faults of the operating system itself (a full disk, a missing permission) are outside
  the model: creating the temporary directory, reading a matched file and writing under
  \<open>/output\<close> succeed.
\<close>

record world =
  output_dir_exists :: bool
  files :: "string \<rightharpoonup> bytes"
  tmpdirs_created :: nat
  executed :: "string list"

text \<open>
  The outcome of \<open>exec(code, exec_globals)\<close>: the program raises, or it completes and
  leaves regular files in the temporary directory, listed as name and bytes in the order
  in which the directory is scanned.
\<close>

datatype exec_outcome =
    Raised exc_class string
  | Completed "(string \<times> bytes) list"

text \<open>
  Python's semantics is not modelled: the evaluator is a parameter. The program runs with
  the privileges of the server, so it may change the host as well.
\<close>

type_synonym evaluator = "string \<Rightarrow> world \<Rightarrow> exec_outcome \<times> world"

subsection \<open>\<open>get_mime_type\<close>\<close>

definition get_mime_type :: "string \<Rightarrow> string" where
  "get_mime_type ext =
     (case map_of [(''.png'', ''image/png''),
                   (''.svg'', ''image/svg+xml''),
                   (''.pdf'', ''application/pdf'')] ext of
        Some m \<Rightarrow> m
      | None \<Rightarrow> ''application/octet-stream'')"

subsection \<open>\<open>render_diagram\<close>\<close>

text \<open>
  The two nested loops after \<open>exec\<close>: for each extension in turn, the first entry of
  the directory whose name matches \<open>*ext\<close>, that is, ends with \<open>ext\<close> (for an extension
  without the pattern characters \<open>*\<close>, \<open>?\<close> and \<open>[\<close>); the function returns at the
  first match with the extension, the name and the bytes.
\<close>

fun find_generated :: "string list \<Rightarrow> (string \<times> bytes) list \<Rightarrow> (string \<times> string \<times> bytes) option" where
  "find_generated [] tmpdir = None"
| "find_generated (ext # exts) tmpdir =
     (case filter (\<lambda>f. suffix ext (fst f)) tmpdir of
        [] \<Rightarrow> find_generated exts tmpdir
      | f # _ \<Rightarrow> Some (ext, fst f, snd f))"

text \<open>
  Entering the \<open>with\<close> block and calling \<open>exec\<close>: a temporary directory is created,
  then the program is evaluated.
\<close>

definition evaluate :: "evaluator \<Rightarrow> string \<Rightarrow> world \<Rightarrow> exec_outcome \<times> world" where
  "evaluate exec code w =
     (let w1 = w\<lparr>tmpdirs_created := Suc (tmpdirs_created w)\<rparr>
      in exec code (w1\<lparr>executed := executed w1 @ [code]\<rparr>))"

text \<open>The list the outer loop runs over.\<close>

definition search_order :: "string \<Rightarrow> string list" where
  "search_order output_format = [''.'' @ output_format, ''.png'', ''.svg'', ''.pdf'']"

definition no_diagram_error :: string where
  "no_diagram_error =
     ''No diagram file was generated. Ensure your code creates a Diagram with show=False.''"

definition render_diagram ::
    "evaluator \<Rightarrow> string \<Rightarrow> string \<Rightarrow> world \<Rightarrow> (raised + render_result) \<times> world" where
  "render_diagram exec code output_format w =
     (case evaluate exec code w of
        (Completed tmpdir, w2) \<Rightarrow>
          (case find_generated (search_order output_format) tmpdir of
             Some (ext, name, content) \<Rightarrow>
               (Inr (Success name content (get_mime_type ext)), w2)
           | None \<Rightarrow> (Inr (Failure no_diagram_error), w2))
      | (Raised SyntaxError e, w2) \<Rightarrow> (Inr (Failure (''Python syntax error: '' @ e)), w2)
      | (Raised ImportError e, w2) \<Rightarrow> (Inr (Failure (''Import error: '' @ e)), w2)
      | (Raised OtherException e, w2) \<Rightarrow> (Inr (Failure e), w2)
      | (Raised BaseExceptionOnly e, w2) \<Rightarrow> (Inl (Uncaught BaseExceptionOnly e), w2))"

subsection \<open>Library functions used by the handler\<close>

text \<open>
  \<open>bytes.decode("utf-8")\<close>: the well-formed byte sequences of the Unicode standard
  (no overlong form, no surrogate, nothing above U+10FFFF), on the byte values.
\<close>

definition cont_byte :: "nat \<Rightarrow> bool" where
  "cont_byte b = (0x80 \<le> b \<and> b \<le> 0xBF)"

fun utf8_valid :: "nat list \<Rightarrow> bool" where
  "utf8_valid [] = True"
| "utf8_valid (b # bs) =
     (if b < 0x80 then utf8_valid bs
      else if 0xC2 \<le> b \<and> b \<le> 0xDF then
        (case bs of
           c1 # r \<Rightarrow> cont_byte c1 \<and> utf8_valid r
         | _ \<Rightarrow> False)
      else if 0xE0 \<le> b \<and> b \<le> 0xEF then
        (case bs of
           c1 # c2 # r \<Rightarrow>
             (if b = 0xE0 then 0xA0 \<le> c1 \<and> c1 \<le> 0xBF
              else if b = 0xED then 0x80 \<le> c1 \<and> c1 \<le> 0x9F
              else cont_byte c1)
             \<and> cont_byte c2 \<and> utf8_valid r
         | _ \<Rightarrow> False)
      else if 0xF0 \<le> b \<and> b \<le> 0xF4 then
        (case bs of
           c1 # c2 # c3 # r \<Rightarrow>
             (if b = 0xF0 then 0x90 \<le> c1 \<and> c1 \<le> 0xBF
              else if b = 0xF4 then 0x80 \<le> c1 \<and> c1 \<le> 0x8F
              else cont_byte c1)
             \<and> cont_byte c2 \<and> cont_byte c3 \<and> utf8_valid r
         | _ \<Rightarrow> False)
      else False)"

definition decode_utf8 :: "bytes \<Rightarrow> string option" where
  "decode_utf8 b = (if utf8_valid (map of_char b) then Some b else None)"

text \<open>\<open>base64.b64encode\<close>, with the standard alphabet and \<open>=\<close> padding.\<close>

definition b64_alphabet :: string where
  "b64_alphabet = ''ABCDEFGHIJKLMNOPQRSTUVWXYZabcdefghijklmnopqrstuvwxyz0123456789+/''"

definition b64_char :: "nat \<Rightarrow> char" where
  "b64_char n = b64_alphabet ! (n mod 64)"

fun b64_groups :: "nat list \<Rightarrow> string" where
  "b64_groups [] = []"
| "b64_groups [a] =
     [b64_char (a div 4), b64_char ((a mod 4) * 16), CHR ''='', CHR ''='']"
| "b64_groups [a, b] =
     [b64_char (a div 4), b64_char ((a mod 4) * 16 + b div 16),
      b64_char ((b mod 16) * 4), CHR ''='']"
| "b64_groups (a # b # c # rest) =
     [b64_char (a div 4), b64_char ((a mod 4) * 16 + b div 16),
      b64_char ((b mod 16) * 4 + c div 64), b64_char (c mod 64)] @ b64_groups rest"

definition b64encode :: "bytes \<Rightarrow> string" where
  "b64encode b = b64_groups (map of_char b)"

text \<open>
  \<open>pathlib\<close> on POSIX: a path is a root (\<open>/\<close>, \<open>//\<close> or none) and the components between
  slashes, without the empty ones and without \<open>.\<close>; \<open>..\<close> is kept. Joining with an
  absolute path gives that path.
\<close>

record path =
  root :: string
  parts :: "string list"

fun split_slash :: "string \<Rightarrow> string list" where
  "split_slash [] = [[]]"
| "split_slash (c # cs) =
     (if c = CHR ''/'' then [] # split_slash cs
      else (c # hd (split_slash cs)) # tl (split_slash cs))"

definition Path :: "string \<Rightarrow> path" where
  "Path s =
     \<lparr>root = (if prefix ''//'' s \<and> \<not> prefix ''///'' s then ''//''
              else if prefix ''/'' s then ''/'' else []),
      parts = filter (\<lambda>c. c \<noteq> [] \<and> c \<noteq> ''.'') (split_slash s)\<rparr>"

definition joinpath :: "path \<Rightarrow> string \<Rightarrow> path" where
  "joinpath base s =
     (let p = Path s
      in if root p \<noteq> [] then p else \<lparr>root = root base, parts = parts base @ parts p\<rparr>)"

fun join_str :: "string \<Rightarrow> string list \<Rightarrow> string" where
  "join_str sep [] = []"
| "join_str sep [x] = x"
| "join_str sep (x # y # ys) = x @ sep @ join_str sep (y # ys)"

definition path_str :: "path \<Rightarrow> string" where
  "path_str p =
     (if root p = [] \<and> parts p = [] then ''.'' else root p @ join_str ''/'' (parts p))"

subsection \<open>\<open>call_tool\<close>, the branch \<open>name == "diagrams_render"\<close>\<close>

text \<open>The \<open>arguments\<close> dictionary: each of the three keys may be absent.\<close>

record render_arguments =
  arg_code :: "string option"
  arg_format :: "string option"
  arg_output_path :: "string option"

text \<open>\<open>arguments.get(key, default)\<close>.\<close>

definition get_default :: "'a option \<Rightarrow> 'a \<Rightarrow> 'a" where
  "get_default v d = (case v of None \<Rightarrow> d | Some x \<Rightarrow> x)"

definition mount_error :: string where
  "mount_error = ''Error: /output directory not mounted. Use: docker run -v /your/path:/output ...''"

definition import_error :: string where
  "import_error = ''Error: Code must import from the diagrams library''"

text \<open>
  The handler, in the order of the source: validation, \<open>render_diagram\<close>, the failure
  response, the save under \<open>/output\<close> (or the early return when it is missing), and the
  content list. \<open>if output_path:\<close> and \<open>if saved_path:\<close> are Python truth tests: the
  value is present and not the empty string.
\<close>

definition call_tool_render ::
    "evaluator \<Rightarrow> render_arguments \<Rightarrow> world \<Rightarrow> (raised + content list) \<times> world" where
  "call_tool_render exec arguments w =
     (let code = get_default (arg_code arguments) [];
          output_format = get_default (arg_format arguments) ''png'';
          output_path = arg_output_path arguments
      in if \<not> sublist ''from diagrams'' code \<and> \<not> sublist ''import diagrams'' code
         then (Inr [TextContent import_error], w)
         else
           (case render_diagram exec code output_format w of
              (Inl x, w1) \<Rightarrow> (Inl x, w1)
            | (Inr (Failure err), w1) \<Rightarrow> (Inr [TextContent (''Error: '' @ err)], w1)
            | (Inr (Success filename content mime_type), w1) \<Rightarrow>
                (let saved =
                   (case output_path of
                      None \<Rightarrow> Inr (None, w1)
                    | Some p \<Rightarrow>
                        if p = [] then Inr (None, w1)
                        else if output_dir_exists w1 then
                          (let p' = (if \<not> suffix (''.'' @ output_format) p
                                     then p @ ''.'' @ output_format else p);
                               full_path = path_str (joinpath (Path ''/output'') p')
                           in Inr (Some full_path, w1\<lparr>files := (files w1)(full_path \<mapsto> content)\<rparr>))
                        else Inl mount_error)
                 in case saved of
                      Inl msg \<Rightarrow> (Inr [TextContent msg], w1)
                    | Inr (saved_path, w2) \<Rightarrow>
                        (let content_b64 = b64encode content;
                             contents =
                               (case saved_path of
                                  None \<Rightarrow> []
                                | Some s \<Rightarrow> if s = [] then [] else [TextContent (''Saved to: '' @ s)])
                         in if output_format = ''svg'' then
                              (case decode_utf8 content of
                                 None \<Rightarrow> (Inl UnicodeDecodeError, w2)
                               | Some text \<Rightarrow> (Inr (contents @ [TextContent text]), w2))
                            else
                              (Inr (contents @ [ImageContent content_b64 mime_type]), w2)))))"

section \<open>Properties\<close>

subsection \<open>The artifact search\<close>




lemma find_generated_SomeD:
  "find_generated exts tmpdir = Some (ext, name, content) \<Longrightarrow>
     ext \<in> set exts \<and> (name, content) \<in> set tmpdir \<and> suffix ext name"
proof (induction exts)
  case Nil
  then show ?case by simp
next
  case (Cons e exts)
  show ?case
  proof (cases "filter (\<lambda>f. suffix e (fst f)) tmpdir")
    case Nil
    with Cons show ?thesis by auto
  next
    case (Cons f fs)
    then have "f \<in> set (filter (\<lambda>f. suffix e (fst f)) tmpdir)" by simp
    then have "f \<in> set tmpdir" "suffix e (fst f)" by auto
    moreover from Cons \<open>find_generated (e # exts) tmpdir = Some (ext, name, content)\<close>
    have "ext = e" "name = fst f" "content = snd f" by auto
    ultimately show ?thesis by auto
  qed
qed



subsection \<open>Evaluation that raises\<close>

text \<open>
  C2, as the code has it. When the evaluation raises an exception that derives from
  \<open>Exception\<close>, the result is a \<open>Failure\<close> of one of three shapes: the error text after
  \<open>Python syntax error: \<close> for a \<open>SyntaxError\<close>, after \<open>Import error: \<close> for an
  \<open>ImportError\<close>, and the error text alone, without a category prefix, for any other
  exception. The handler returns it as a single text item after \<open>Error: \<close>. The
  diagnostic of a syntax error differs from the diagnostic of every import error.
\<close>

theorem render_diagram_exception_shapes:
  assumes "evaluate exec code w = (Raised cls e, w')" and "cls \<noteq> BaseExceptionOnly"
  shows "render_diagram exec code output_format w =
           (Inr (Failure ((case cls of SyntaxError \<Rightarrow> ''Python syntax error: ''
                            | ImportError \<Rightarrow> ''Import error: ''
                            | _ \<Rightarrow> []) @ e)), w')
       \<and> (code = get_default (arg_code arguments) []
            \<and> output_format = get_default (arg_format arguments) ''png''
            \<and> (sublist ''from diagrams'' code \<or> sublist ''import diagrams'' code)
          \<longrightarrow> call_tool_render exec arguments w =
                (Inr [TextContent (''Error: '' @ (case cls of SyntaxError \<Rightarrow> ''Python syntax error: ''
                            | ImportError \<Rightarrow> ''Import error: ''
                            | _ \<Rightarrow> []) @ e)], w'))
       \<and> (\<forall>exec2 code2 w2 e2 w2' fmt2.
             cls = SyntaxError \<and> evaluate exec2 code2 w2 = (Raised ImportError e2, w2')
             \<longrightarrow> fst (render_diagram exec code output_format w)
                 \<noteq> fst (render_diagram exec2 code2 fmt2 w2))"
proof (intro conjI impI allI)
  show r: "render_diagram exec code output_format w =
           (Inr (Failure ((case cls of SyntaxError \<Rightarrow> ''Python syntax error: ''
                            | ImportError \<Rightarrow> ''Import error: ''
                            | _ \<Rightarrow> []) @ e)), w')"
    using assms by (cases cls) (simp_all add: render_diagram_def)
  {
    assume "code = get_default (arg_code arguments) []
            \<and> output_format = get_default (arg_format arguments) ''png''
            \<and> (sublist ''from diagrams'' code \<or> sublist ''import diagrams'' code)"
    then show "call_tool_render exec arguments w =
                (Inr [TextContent (''Error: '' @ (case cls of SyntaxError \<Rightarrow> ''Python syntax error: ''
                            | ImportError \<Rightarrow> ''Import error: ''
                            | _ \<Rightarrow> []) @ e)], w')"
      using r by (auto simp: call_tool_render_def Let_def)
  }
  {
    fix exec2 code2 w2 e2 w2' fmt2
    assume "cls = SyntaxError \<and> evaluate exec2 code2 w2 = (Raised ImportError e2, w2')"
    then show "fst (render_diagram exec code output_format w)
                 \<noteq> fst (render_diagram exec2 code2 fmt2 w2)"
      using r by (simp add: render_diagram_def)
  }
qed

theorem render_diagram_exception_shapes_witness:
  "call_tool_render (\<lambda>c w. (Raised ImportError ''No module named foo'', w))
     \<lparr>arg_code = Some ''import diagrams'', arg_format = None, arg_output_path = None\<rparr>
     \<lparr>output_dir_exists = False, files = Map.empty, tmpdirs_created = 0, executed = []\<rparr>
   = (Inr [TextContent ''Error: Import error: No module named foo''],
      \<lparr>output_dir_exists = False, files = Map.empty, tmpdirs_created = 1,
        executed = [''import diagrams'']\<rparr>)
   \<and> fst (render_diagram (\<lambda>c w. (Raised SyntaxError ''invalid syntax'', w)) ''import diagrams'' ''png''
          \<lparr>output_dir_exists = False, files = Map.empty, tmpdirs_created = 0, executed = []\<rparr>)
     \<noteq> fst (render_diagram (\<lambda>c w. (Raised ImportError ''invalid syntax'', w)) ''import diagrams'' ''png''
          \<lparr>output_dir_exists = False, files = Map.empty, tmpdirs_created = 0, executed = []\<rparr>)"
proof -
  let ?w = "\<lparr>output_dir_exists = False, files = Map.empty, tmpdirs_created = 0, executed = []\<rparr>"
  let ?w' = "\<lparr>output_dir_exists = False, files = Map.empty, tmpdirs_created = 1,
        executed = [''import diagrams'']\<rparr>"
  let ?args = "\<lparr>arg_code = Some ''import diagrams'', arg_format = None, arg_output_path = None\<rparr>"
  let ?imp = "\<lambda>(c::string) (w::world). (Raised ImportError ''No module named foo'', w)"
  let ?imp2 = "\<lambda>(c::string) (w::world). (Raised ImportError ''invalid syntax'', w)"
  let ?syn = "\<lambda>(c::string) (w::world). (Raised SyntaxError ''invalid syntax'', w)"
  have e1: "evaluate ?imp ''import diagrams'' ?w = (Raised ImportError ''No module named foo'', ?w')"
    by (simp add: evaluate_def)
  have e2: "evaluate ?syn ''import diagrams'' ?w = (Raised SyntaxError ''invalid syntax'', ?w')"
    by (simp add: evaluate_def)
  have e3: "evaluate ?imp2 ''import diagrams'' ?w = (Raised ImportError ''invalid syntax'', ?w')"
    by (simp add: evaluate_def)
  have "call_tool_render ?imp ?args ?w
      = (Inr [TextContent ''Error: Import error: No module named foo''], ?w')"
    using render_diagram_exception_shapes [OF e1, of "''png''" ?args, THEN conjunct2, THEN conjunct1]
    by (simp add: get_default_def sublist_Cons_right)
  moreover have "fst (render_diagram ?syn ''import diagrams'' ''png'' ?w)
     \<noteq> fst (render_diagram ?imp2 ''import diagrams'' ''png'' ?w)"
    using render_diagram_exception_shapes [OF e2, of "''png''" ?args, THEN conjunct2, THEN conjunct2,
       rule_format, of ?imp2 "''import diagrams''" ?w "''invalid syntax''" ?w' "''png''"] e3
    by simp
  ultimately show ?thesis by simp
qed

theorem render_diagram_exception_shapes_counterexample:
  "fst (render_diagram (\<lambda>c w. (Raised BaseExceptionOnly ''1'', w)) ''import diagrams; raise SystemExit(1)'' ''png''
          \<lparr>output_dir_exists = False, files = Map.empty, tmpdirs_created = 0, executed = []\<rparr>)
     = Inl (Uncaught BaseExceptionOnly ''1'')
   \<and> call_tool_render (\<lambda>c w. (Raised OtherException ''Python syntax error: invalid syntax'', w))
        \<lparr>arg_code = Some ''import diagrams'', arg_format = None, arg_output_path = None\<rparr>
        \<lparr>output_dir_exists = False, files = Map.empty, tmpdirs_created = 0, executed = []\<rparr>
     = call_tool_render (\<lambda>c w. (Raised SyntaxError ''invalid syntax'', w))
        \<lparr>arg_code = Some ''import diagrams'', arg_format = None, arg_output_path = None\<rparr>
        \<lparr>output_dir_exists = False, files = Map.empty, tmpdirs_created = 0, executed = []\<rparr>"
  by (simp add: render_diagram_def evaluate_def call_tool_render_def get_default_def sublist_Cons_right)

subsection \<open>Validation before evaluation\<close>

text \<open>
  C3. When the code contains neither \<open>from diagrams\<close> nor \<open>import diagrams\<close>, the handler
  answers with the plain error text and leaves the host as it found it, whatever the
  evaluator would have done: no temporary directory is created, no program is evaluated
  and no file is written.
\<close>

theorem call_tool_render_rejects_missing_import:
  assumes "\<not> sublist ''from diagrams'' (get_default (arg_code arguments) [])"
    and "\<not> sublist ''import diagrams'' (get_default (arg_code arguments) [])"
  shows "call_tool_render exec arguments w =
           (Inr [TextContent ''Error: Code must import from the diagrams library''], w)"
  using assms by (simp add: call_tool_render_def import_error_def)

theorem call_tool_render_rejects_missing_import_witness:
  "call_tool_render (\<lambda>c w. (Completed [(''diagram.png'', ''p'')], w))
     \<lparr>arg_code = Some ''print(1)'', arg_format = None, arg_output_path = Some ''out''\<rparr>
     \<lparr>output_dir_exists = True, files = Map.empty, tmpdirs_created = 0, executed = []\<rparr>
   = (Inr [TextContent ''Error: Code must import from the diagrams library''],
      \<lparr>output_dir_exists = True, files = Map.empty, tmpdirs_created = 0, executed = []\<rparr>)"
  by (rule call_tool_render_rejects_missing_import) (simp_all add: get_default_def sublist_Cons_right)

subsection \<open>The handler after a successful render\<close>

lemma path_str_joinpath_nonempty: "path_str (joinpath (Path ''/output'') p) \<noteq> []"
  by (simp add: path_str_def joinpath_def Path_def Let_def)

lemma call_tool_render_no_save:
  assumes "sublist ''from diagrams'' (get_default (arg_code arguments) [])
           \<or> sublist ''import diagrams'' (get_default (arg_code arguments) [])"
    and "render_diagram exec (get_default (arg_code arguments) [])
           (get_default (arg_format arguments) ''png'') w = (Inr (Success name content mime), w1)"
    and "arg_output_path arguments = None \<or> arg_output_path arguments = Some []"
  shows "call_tool_render exec arguments w =
     (if get_default (arg_format arguments) ''png'' = ''svg'' then
        (case decode_utf8 content of
           None \<Rightarrow> (Inl UnicodeDecodeError, w1)
         | Some text \<Rightarrow> (Inr [TextContent text], w1))
      else (Inr [ImageContent (b64encode content) mime], w1))"
  using assms by (auto simp: call_tool_render_def Let_def split: option.splits)

lemma call_tool_render_save:
  assumes "sublist ''from diagrams'' (get_default (arg_code arguments) [])
           \<or> sublist ''import diagrams'' (get_default (arg_code arguments) [])"
    and "render_diagram exec (get_default (arg_code arguments) [])
           (get_default (arg_format arguments) ''png'') w = (Inr (Success name content mime), w1)"
    and "arg_output_path arguments = Some p" and "p \<noteq> []" and "output_dir_exists w1"
    and "full = path_str (joinpath (Path ''/output'')
           (if suffix (''.'' @ get_default (arg_format arguments) ''png'') p then p
            else p @ ''.'' @ get_default (arg_format arguments) ''png''))"
  shows "call_tool_render exec arguments w =
     (if get_default (arg_format arguments) ''png'' = ''svg'' then
        (case decode_utf8 content of
           None \<Rightarrow> (Inl UnicodeDecodeError, w1\<lparr>files := (files w1)(full \<mapsto> content)\<rparr>)
         | Some text \<Rightarrow>
             (Inr [TextContent (''Saved to: '' @ full), TextContent text],
              w1\<lparr>files := (files w1)(full \<mapsto> content)\<rparr>))
      else (Inr [TextContent (''Saved to: '' @ full), ImageContent (b64encode content) mime],
            w1\<lparr>files := (files w1)(full \<mapsto> content)\<rparr>))"
  using assms path_str_joinpath_nonempty
  by (auto simp: call_tool_render_def Let_def split: option.splits)

subsection \<open>Saving under the output root\<close>

text \<open>
  C4. After a successful render with a non-empty \<open>output_path\<close>, when \<open>/output\<close> does not
  exist the handler answers with the text that names the mount to use, and the host is
  the one the evaluation left: the handler has written no file.
\<close>

theorem call_tool_render_output_not_mounted:
  assumes "sublist ''from diagrams'' (get_default (arg_code arguments) [])
           \<or> sublist ''import diagrams'' (get_default (arg_code arguments) [])"
    and "render_diagram exec (get_default (arg_code arguments) [])
           (get_default (arg_format arguments) ''png'') w = (Inr (Success name content mime), w1)"
    and "arg_output_path arguments = Some p" and "p \<noteq> []"
    and "\<not> output_dir_exists w1"
  shows "call_tool_render exec arguments w =
           (Inr [TextContent
              ''Error: /output directory not mounted. Use: docker run -v /your/path:/output ...''],
            w1)"
  using assms by (auto simp: call_tool_render_def Let_def mount_error_def)

theorem call_tool_render_output_not_mounted_witness:
  "call_tool_render (\<lambda>c w. (Completed [(''diagram.png'', ''p'')], w))
     \<lparr>arg_code = Some ''from diagrams import Diagram'', arg_format = None,
       arg_output_path = Some ''out''\<rparr>
     \<lparr>output_dir_exists = False, files = Map.empty, tmpdirs_created = 0, executed = []\<rparr>
   = (Inr [TextContent
        ''Error: /output directory not mounted. Use: docker run -v /your/path:/output ...''],
      \<lparr>output_dir_exists = False, files = Map.empty, tmpdirs_created = 1,
        executed = [''from diagrams import Diagram'']\<rparr>)"
  by (rule call_tool_render_output_not_mounted [where name = "''diagram.png''" and content = "''p''"
        and mime = "''image/png''" and p = "''out''"])
     (simp_all add: get_default_def sublist_Cons_right render_diagram_def evaluate_def search_order_def
        suffix_to_prefix get_mime_type_def)

lemma render_diagram_SuccessD:
  assumes "render_diagram exec code fmt w = (Inr (Success name content mime), w1)"
  shows "\<exists>tmpdir ext. evaluate exec code w = (Completed tmpdir, w1)
           \<and> find_generated (search_order fmt) tmpdir = Some (ext, name, content)
           \<and> mime = get_mime_type ext"
proof (cases "evaluate exec code w")
  case (Pair outcome w2)
  show ?thesis
  proof (cases outcome)
    case (Raised cls e)
    with Pair assms show ?thesis by (cases cls) (simp_all add: render_diagram_def)
  next
    case (Completed tmpdir)
    with Pair assms show ?thesis
      by (auto simp: render_diagram_def split: option.splits)
  qed
qed

subsection \<open>Paths\<close>

lemma split_slash_nonempty: "split_slash s \<noteq> []"
  by (induction s) auto

lemma split_slash_no_slash: "CHR ''/'' \<notin> set s \<Longrightarrow> split_slash s = [s]"
  by (induction s) auto

lemma split_slash_append:
  "CHR ''/'' \<notin> set s \<Longrightarrow>
     split_slash (a @ s) = butlast (split_slash a) @ [last (split_slash a) @ s]"
proof (induction a)
  case Nil
  then show ?case by (simp add: split_slash_no_slash)
next
  case (Cons c a)
  obtain x xs where x: "split_slash a = x # xs"
    using split_slash_nonempty [of a] by (cases "split_slash a") auto
  show ?case
  proof (cases "c = CHR ''/''")
    case True
    with Cons x show ?thesis by simp
  next
    case False
    with Cons x show ?thesis by (cases xs) auto
  qed
qed

lemma join_str_snoc_suffix: "suffix x (join_str sep (xs @ [x]))"
proof (induction xs)
  case Nil
  show ?case by simp
next
  case (Cons y ys)
  then show ?case
    by (cases ys) (auto simp: suffix_append)
qed

lemma parts_Path_last:
  assumes "suffix (CHR ''.'' # fmt) p" and "fmt \<noteq> []" and "CHR ''/'' \<notin> set fmt"
  shows "\<exists>cs l. parts (Path p) = cs @ [l] \<and> suffix (CHR ''.'' # fmt) l"
proof -
  from assms(1) obtain a where p: "p = a @ CHR ''.'' # fmt"
    by (auto simp: suffix_def)
  let ?l = "last (split_slash a) @ CHR ''.'' # fmt"
  have "CHR ''/'' \<notin> set (CHR ''.'' # fmt)" using assms(3) by simp
  then have "split_slash p = butlast (split_slash a) @ [?l]"
    unfolding p by (rule split_slash_append)
  moreover have "?l \<noteq> []" by simp
  moreover have "?l \<noteq> ''.''"
  proof
    assume "?l = ''.''"
    then have "length ?l = 1" by simp
    then show False using assms(2) by (cases fmt) auto
  qed
  ultimately have "parts (Path p)
      = filter (\<lambda>c. c \<noteq> [] \<and> c \<noteq> ''.'') (butlast (split_slash a)) @ [?l]"
    by (simp add: Path_def)
  moreover have "suffix (CHR ''.'' # fmt) ?l" by (simp add: suffix_def)
  ultimately show ?thesis by blast
qed

lemma full_path_keeps_extension:
  assumes "suffix (CHR ''.'' # fmt) p" and "fmt \<noteq> []" and "CHR ''/'' \<notin> set fmt"
  shows "suffix (CHR ''.'' # fmt) (path_str (joinpath (Path ''/output'') p))"
proof -
  from parts_Path_last [OF assms] obtain cs l
    where l: "parts (Path p) = cs @ [l]" "suffix (CHR ''.'' # fmt) l" by blast
  have "\<exists>r ds. path_str (joinpath (Path ''/output'') p) = r @ join_str ''/'' (ds @ [l])"
  proof (cases "root (Path p) = []")
    case True
    then have "path_str (joinpath (Path ''/output'') p)
        = ''/'' @ join_str ''/'' ((parts (Path ''/output'') @ cs) @ [l])"
      using l by (simp add: joinpath_def path_str_def Let_def Path_def)
    then show ?thesis by blast
  next
    case False
    then have "path_str (joinpath (Path ''/output'') p) = root (Path p) @ join_str ''/'' (cs @ [l])"
      using l by (simp add: joinpath_def path_str_def Let_def)
    then show ?thesis by blast
  qed
  then obtain r ds where "path_str (joinpath (Path ''/output'') p) = r @ join_str ''/'' (ds @ [l])"
    by blast
  moreover have "suffix l (join_str ''/'' (ds @ [l]))" by (rule join_str_snoc_suffix)
  ultimately have "suffix l (path_str (joinpath (Path ''/output'') p))"
    by (simp add: suffix_appendI)
  with l(2) show ?thesis by (rule suffix_order.trans)
qed

lemma full_path_under_output:
  assumes "suffix (CHR ''.'' # fmt) p" and "fmt \<noteq> []" and "CHR ''/'' \<notin> set fmt"
    and "\<not> prefix ''/'' p"
  shows "prefix ''/output/'' (path_str (joinpath (Path ''/output'') p))"
proof -
  from parts_Path_last [OF assms(1-3)] obtain cs l
    where l: "parts (Path p) = cs @ [l]" by blast
  have "root (Path p) = []" using assms(4) by (auto simp: Path_def prefix_def)
  then have "path_str (joinpath (Path ''/output'') p)
      = ''/'' @ join_str ''/'' (''output'' # cs @ [l])"
    using l by (simp add: joinpath_def path_str_def Let_def Path_def)
  also have "\<dots> = ''/output/'' @ join_str ''/'' (cs @ [l])"
    by (cases "cs @ [l]") auto
  finally show ?thesis by (simp add: prefix_def)
qed

text \<open>
  C5. When the artifact is saved, the path given is kept if it already ends with
  \<open>.<format>\<close> and gets \<open>.<format>\<close> appended otherwise, so the normalised path always ends
  with the extension and is changed exactly when it did not; the bytes are written at that
  path joined to \<open>/output\<close>. For the format \<open>png\<close>, both \<open>diagram\<close> and \<open>diagram.png\<close> are
  saved at \<open>/output/diagram.png\<close>.
\<close>

theorem call_tool_render_save_extension:
  assumes "sublist ''from diagrams'' (get_default (arg_code arguments) [])
           \<or> sublist ''import diagrams'' (get_default (arg_code arguments) [])"
    and "render_diagram exec (get_default (arg_code arguments) [])
           (get_default (arg_format arguments) ''png'') w = (Inr (Success name content mime), w1)"
    and "arg_output_path arguments = Some p" and "p \<noteq> []" and "output_dir_exists w1"
    and "fmt = get_default (arg_format arguments) ''png''"
    and "p' = (if suffix (''.'' @ fmt) p then p else p @ ''.'' @ fmt)"
  shows "snd (call_tool_render exec arguments w)
           = w1\<lparr>files := (files w1)(path_str (joinpath (Path ''/output'') p') \<mapsto> content)\<rparr>
       \<and> suffix (''.'' @ fmt) p'
       \<and> (p' = p \<longleftrightarrow> suffix (''.'' @ fmt) p)
       \<and> (fmt = ''png'' \<and> (p = ''diagram'' \<or> p = ''diagram.png'')
            \<longrightarrow> path_str (joinpath (Path ''/output'') p') = ''/output/diagram.png'')"
proof (intro conjI impI)
  show "snd (call_tool_render exec arguments w)
           = w1\<lparr>files := (files w1)(path_str (joinpath (Path ''/output'') p') \<mapsto> content)\<rparr>"
    using call_tool_render_save [OF assms(1-5) refl] assms(6,7)
    by (simp split: option.splits)
  show "suffix (''.'' @ fmt) p'"
    using assms(7) by (simp add: suffix_def)
  show "p' = p \<longleftrightarrow> suffix (''.'' @ fmt) p"
    using assms(7) by simp
  assume h: "fmt = ''png'' \<and> (p = ''diagram'' \<or> p = ''diagram.png'')"
  have "\<not> suffix ''.png'' ''diagram''" and "suffix ''.png'' ''diagram.png''"
    by (simp_all add: suffix_to_prefix)
  with h assms(7) have "p' = ''diagram.png''" by auto
  moreover have "path_str (joinpath (Path ''/output'') ''diagram.png'') = ''/output/diagram.png''"
    by (simp add: path_str_def joinpath_def Path_def)
  ultimately show "path_str (joinpath (Path ''/output'') p') = ''/output/diagram.png''"
    by simp
qed

theorem call_tool_render_save_extension_witness:
  "files (snd (call_tool_render (\<lambda>c w. (Completed [(''arch.png'', ''PNGDATA'')], w))
       \<lparr>arg_code = Some ''from diagrams import Diagram'', arg_format = Some ''png'',
         arg_output_path = Some ''diagram''\<rparr>
       \<lparr>output_dir_exists = True, files = Map.empty, tmpdirs_created = 0, executed = []\<rparr>))
     ''/output/diagram.png'' = Some ''PNGDATA''
   \<and> files (snd (call_tool_render (\<lambda>c w. (Completed [(''arch.png'', ''PNGDATA'')], w))
       \<lparr>arg_code = Some ''from diagrams import Diagram'', arg_format = Some ''png'',
         arg_output_path = Some ''diagram.png''\<rparr>
       \<lparr>output_dir_exists = True, files = Map.empty, tmpdirs_created = 0, executed = []\<rparr>))
     = Map.empty(''/output/diagram.png'' \<mapsto> ''PNGDATA'')"
proof -
  let ?exec = "\<lambda>(c::string) (w::world). (Completed [(''arch.png'', ''PNGDATA'')], w)"
  let ?w = "\<lparr>output_dir_exists = True, files = Map.empty, tmpdirs_created = 0, executed = []\<rparr>"
  let ?w1 = "\<lparr>output_dir_exists = True, files = Map.empty, tmpdirs_created = 1,
               executed = [''from diagrams import Diagram'']\<rparr>"
  let ?a1 = "\<lparr>arg_code = Some ''from diagrams import Diagram'', arg_format = Some ''png'',
         arg_output_path = Some ''diagram''\<rparr>"
  let ?a2 = "\<lparr>arg_code = Some ''from diagrams import Diagram'', arg_format = Some ''png'',
         arg_output_path = Some ''diagram.png''\<rparr>"
  have r: "render_diagram ?exec ''from diagrams import Diagram'' ''png'' ?w
             = (Inr (Success ''arch.png'' ''PNGDATA'' ''image/png''), ?w1)"
    by (simp add: render_diagram_def evaluate_def search_order_def suffix_to_prefix get_mime_type_def)
  have "snd (call_tool_render ?exec ?a1 ?w)
          = ?w1\<lparr>files := (files ?w1)(''/output/diagram.png'' \<mapsto> ''PNGDATA'')\<rparr>"
    using call_tool_render_save_extension [of ?a1 ?exec ?w "''arch.png''" "''PNGDATA''" "''image/png''"
        ?w1 "''diagram''" "''png''" "''diagram.png''"] r
    by (simp add: get_default_def sublist_Cons_right suffix_to_prefix)
  moreover have "snd (call_tool_render ?exec ?a2 ?w)
          = ?w1\<lparr>files := (files ?w1)(''/output/diagram.png'' \<mapsto> ''PNGDATA'')\<rparr>"
    using call_tool_render_save_extension [of ?a2 ?exec ?w "''arch.png''" "''PNGDATA''" "''image/png''"
        ?w1 "''diagram.png''" "''png''" "''diagram.png''"] r
    by (simp add: get_default_def sublist_Cons_right suffix_to_prefix)
  ultimately show ?thesis by simp
qed

text \<open>
  C10. The extension of the saved file comes from the requested format alone. When no
  file of the temporary directory ends with \<open>.<format>\<close> and the scan falls back to a file
  with one of the extensions \<open>.png\<close>, \<open>.svg\<close>, \<open>.pdf\<close>, the handler writes exactly the bytes
  of that file at a path that ends with \<open>.<format>\<close>, and under \<open>/output/\<close> when the given
  path is relative. The format is a plain extension: not empty and without a slash.
\<close>

theorem call_tool_render_saves_under_requested_extension:
  assumes "sublist ''from diagrams'' (get_default (arg_code arguments) [])
           \<or> sublist ''import diagrams'' (get_default (arg_code arguments) [])"
    and "fmt = get_default (arg_format arguments) ''png''"
    and "evaluate exec (get_default (arg_code arguments) []) w = (Completed tmpdir, w1)"
    and "\<forall>g\<in>set tmpdir. \<not> suffix (''.'' @ fmt) (fst g)"
    and "render_diagram exec (get_default (arg_code arguments) []) fmt w
           = (Inr (Success name content mime), w1)"
    and "arg_output_path arguments = Some p" and "p \<noteq> []" and "output_dir_exists w1"
    and "fmt \<noteq> []" and "CHR ''/'' \<notin> set fmt"
  shows "\<exists>full.
           snd (call_tool_render exec arguments w) = w1\<lparr>files := (files w1)(full \<mapsto> content)\<rparr>
         \<and> suffix (''.'' @ fmt) full
         \<and> (\<not> prefix ''/'' p \<longrightarrow> prefix ''/output/'' full)
         \<and> (name, content) \<in> set tmpdir
         \<and> \<not> suffix (''.'' @ fmt) name
         \<and> (suffix ''.png'' name \<or> suffix ''.svg'' name \<or> suffix ''.pdf'' name)"
proof -
  let ?p' = "if suffix (''.'' @ fmt) p then p else p @ ''.'' @ fmt"
  let ?full = "path_str (joinpath (Path ''/output'') ?p')"
  have sfx: "suffix (CHR ''.'' # fmt) ?p'" by (simp add: suffix_def)
  have rel: "\<not> prefix ''/'' p \<Longrightarrow> \<not> prefix ''/'' ?p'"
    using \<open>p \<noteq> []\<close> by (cases p) auto
  from render_diagram_SuccessD [OF assms(5)] assms(3) obtain ext
    where f: "find_generated (search_order fmt) tmpdir = Some (ext, name, content)"
    by auto
  from find_generated_SomeD [OF f]
  have ext: "ext \<in> set (search_order fmt)" "(name, content) \<in> set tmpdir" "suffix ext name"
    by simp_all
  from ext(2) assms(4) have nreq: "\<not> suffix (''.'' @ fmt) name" by auto
  with ext(1,3) have fb: "suffix ''.png'' name \<or> suffix ''.svg'' name \<or> suffix ''.pdf'' name"
    by (auto simp: search_order_def)
  have "snd (call_tool_render exec arguments w) = w1\<lparr>files := (files w1)(?full \<mapsto> content)\<rparr>"
    using call_tool_render_save [OF assms(1) assms(5) [unfolded assms(2)] assms(6-8) refl] assms(2)
    by (simp split: option.splits)
  moreover have "suffix (''.'' @ fmt) ?full"
    using full_path_keeps_extension [OF sfx assms(9,10)] by simp
  moreover have "\<not> prefix ''/'' p \<longrightarrow> prefix ''/output/'' ?full"
    using full_path_under_output [OF sfx assms(9,10)] rel by blast
  ultimately show ?thesis using ext(2) nreq fb by blast
qed

theorem call_tool_render_saves_under_requested_extension_witness:
  "files (snd (call_tool_render (\<lambda>c w. (Completed [(''arch.png'', ''PNGDATA'')], w))
       \<lparr>arg_code = Some ''from diagrams import Diagram'', arg_format = Some ''pdf'',
         arg_output_path = Some ''docs/arch''\<rparr>
       \<lparr>output_dir_exists = True, files = Map.empty, tmpdirs_created = 0, executed = []\<rparr>))
     ''/output/docs/arch.pdf'' = Some ''PNGDATA''"
proof -
  let ?exec = "\<lambda>(c::string) (w::world). (Completed [(''arch.png'', ''PNGDATA'')], w)"
  let ?w = "\<lparr>output_dir_exists = True, files = Map.empty, tmpdirs_created = 0, executed = []\<rparr>"
  let ?w1 = "\<lparr>output_dir_exists = True, files = Map.empty, tmpdirs_created = 1,
               executed = [''from diagrams import Diagram'']\<rparr>"
  let ?a = "\<lparr>arg_code = Some ''from diagrams import Diagram'', arg_format = Some ''pdf'',
         arg_output_path = Some ''docs/arch''\<rparr>"
  have e: "evaluate ?exec ''from diagrams import Diagram'' ?w = (Completed [(''arch.png'', ''PNGDATA'')], ?w1)"
    by (simp add: evaluate_def)
  have r: "render_diagram ?exec ''from diagrams import Diagram'' ''pdf'' ?w
             = (Inr (Success ''arch.png'' ''PNGDATA'' ''image/png''), ?w1)"
    by (simp add: render_diagram_def evaluate_def search_order_def suffix_to_prefix get_mime_type_def)
  have "\<exists>full. snd (call_tool_render ?exec ?a ?w) = ?w1\<lparr>files := (files ?w1)(full \<mapsto> ''PNGDATA'')\<rparr>
         \<and> suffix (''.'' @ ''pdf'') full
         \<and> (\<not> prefix ''/'' ''docs/arch'' \<longrightarrow> prefix ''/output/'' full)
         \<and> (''arch.png'', ''PNGDATA'') \<in> set [(''arch.png'', ''PNGDATA'')]
         \<and> \<not> suffix (''.'' @ ''pdf'') ''arch.png''
         \<and> (suffix ''.png'' ''arch.png'' \<or> suffix ''.svg'' ''arch.png'' \<or> suffix ''.pdf'' ''arch.png'')"
    using e r
    by (intro call_tool_render_saves_under_requested_extension [where mime = "''image/png''"])
       (simp_all add: get_default_def sublist_Cons_right suffix_to_prefix)
  moreover have "snd (call_tool_render ?exec ?a ?w)
      = ?w1\<lparr>files := (files ?w1)(''/output/docs/arch.pdf'' \<mapsto> ''PNGDATA'')\<rparr>"
    using call_tool_render_save [of ?a ?exec ?w "''arch.png''" "''PNGDATA''" "''image/png''" ?w1
        "''docs/arch''" "''/output/docs/arch.pdf''"] r
    by (simp add: get_default_def sublist_Cons_right suffix_to_prefix path_str_def joinpath_def Path_def)
  ultimately show ?thesis by simp
qed

subsection \<open>The content list\<close>

lemma get_mime_type_table:
  "get_mime_type ''.png'' = ''image/png''"
  "get_mime_type ''.svg'' = ''image/svg+xml''"
  "get_mime_type ''.pdf'' = ''application/pdf''"
  "ext \<noteq> ''.png'' \<Longrightarrow> ext \<noteq> ''.svg'' \<Longrightarrow> ext \<noteq> ''.pdf''
     \<Longrightarrow> get_mime_type ext = ''application/octet-stream''"
  by (simp_all add: get_mime_type_def)

lemma call_tool_render_artifact_stage:
  assumes "sublist ''from diagrams'' (get_default (arg_code arguments) [])
           \<or> sublist ''import diagrams'' (get_default (arg_code arguments) [])"
    and "render_diagram exec (get_default (arg_code arguments) [])
           (get_default (arg_format arguments) ''png'') w = (Inr (Success name content mime), w1)"
    and "arg_output_path arguments = None \<or> arg_output_path arguments = Some []
         \<or> output_dir_exists w1"
  shows "\<exists>saved. length saved \<le> 1 \<and>
     fst (call_tool_render exec arguments w) =
       (if get_default (arg_format arguments) ''png'' = ''svg'' then
          (if utf8_valid (map of_char content) then Inr (saved @ [TextContent content])
           else Inl UnicodeDecodeError)
        else Inr (saved @ [ImageContent (b64encode content) mime]))"
proof (cases "arg_output_path arguments = None \<or> arg_output_path arguments = Some []")
  case True
  have "length ([]::content list) \<le> 1 \<and>
     fst (call_tool_render exec arguments w) =
       (if get_default (arg_format arguments) ''png'' = ''svg'' then
          (if utf8_valid (map of_char content) then Inr ([] @ [TextContent content])
           else Inl UnicodeDecodeError)
        else Inr ([] @ [ImageContent (b64encode content) mime]))"
    using call_tool_render_no_save [OF assms(1,2) True]
    by (simp add: decode_utf8_def)
  then show ?thesis by blast
next
  case False
  then obtain p where p: "arg_output_path arguments = Some p" "p \<noteq> []" by auto
  with assms(3) have m: "output_dir_exists w1" by auto
  define full where "full = path_str (joinpath (Path ''/output'')
           (if suffix (''.'' @ get_default (arg_format arguments) ''png'') p then p
            else p @ ''.'' @ get_default (arg_format arguments) ''png''))"
  have "length [TextContent (''Saved to: '' @ full)] \<le> 1 \<and>
     fst (call_tool_render exec arguments w) =
       (if get_default (arg_format arguments) ''png'' = ''svg'' then
          (if utf8_valid (map of_char content)
           then Inr ([TextContent (''Saved to: '' @ full)] @ [TextContent content])
           else Inl UnicodeDecodeError)
        else Inr ([TextContent (''Saved to: '' @ full)] @ [ImageContent (b64encode content) mime]))"
    using call_tool_render_save [OF assms(1,2) p m full_def]
    by (simp add: decode_utf8_def)
  then show ?thesis by blast
qed

text \<open>
  C6. After a successful render, when the handler returns a content list (and not the
  mount error), its last item is the artifact: the bytes as text exactly when the format is
  \<open>svg\<close>, and otherwise an image item carrying the base64 encoding of the bytes and the
  MIME type of the matched extension, taken from the table \<open>.png\<close> to \<open>image/png\<close>,
  \<open>.svg\<close> to \<open>image/svg+xml\<close>, \<open>.pdf\<close> to \<open>application/pdf\<close> and anything else to
  \<open>application/octet-stream\<close>.
\<close>

theorem call_tool_render_artifact_item:
  assumes "sublist ''from diagrams'' (get_default (arg_code arguments) [])
           \<or> sublist ''import diagrams'' (get_default (arg_code arguments) [])"
    and "render_diagram exec (get_default (arg_code arguments) [])
           (get_default (arg_format arguments) ''png'') w = (Inr (Success name content mime), w1)"
    and "arg_output_path arguments = None \<or> arg_output_path arguments = Some []
         \<or> output_dir_exists w1"
    and "fst (call_tool_render exec arguments w) = Inr payload"
  shows "payload \<noteq> []
       \<and> (get_default (arg_format arguments) ''png'' = ''svg''
            \<longrightarrow> last payload = TextContent content \<and> decode_utf8 content = Some content)
       \<and> (get_default (arg_format arguments) ''png'' \<noteq> ''svg''
            \<longrightarrow> last payload = ImageContent (b64encode content) mime)
       \<and> (\<exists>ext\<in>set (search_order (get_default (arg_format arguments) ''png'')).
             suffix ext name \<and> mime = get_mime_type ext)
       \<and> get_mime_type ''.png'' = ''image/png''
       \<and> get_mime_type ''.svg'' = ''image/svg+xml''
       \<and> get_mime_type ''.pdf'' = ''application/pdf''
       \<and> (\<forall>ext. ext \<noteq> ''.png'' \<and> ext \<noteq> ''.svg'' \<and> ext \<noteq> ''.pdf''
             \<longrightarrow> get_mime_type ext = ''application/octet-stream'')"
proof -
  from call_tool_render_artifact_stage [OF assms(1-3)] obtain saved where
    s: "fst (call_tool_render exec arguments w) =
       (if get_default (arg_format arguments) ''png'' = ''svg'' then
          (if utf8_valid (map of_char content) then Inr (saved @ [TextContent content])
           else Inl UnicodeDecodeError)
        else Inr (saved @ [ImageContent (b64encode content) mime]))"
    by blast
  have a: "payload \<noteq> []" using s assms(4) by (auto split: if_splits)
  have b: "get_default (arg_format arguments) ''png'' = ''svg''
            \<longrightarrow> last payload = TextContent content \<and> decode_utf8 content = Some content"
    using s assms(4) by (auto simp: decode_utf8_def split: if_splits)
  have c: "get_default (arg_format arguments) ''png'' \<noteq> ''svg''
            \<longrightarrow> last payload = ImageContent (b64encode content) mime"
    using s assms(4) by (auto split: if_splits)
  from render_diagram_SuccessD [OF assms(2)] obtain tmpdir ext where
    f: "find_generated (search_order (get_default (arg_format arguments) ''png'')) tmpdir
          = Some (ext, name, content)" and m: "mime = get_mime_type ext"
    by blast
  from find_generated_SomeD [OF f] m
  have d: "\<exists>ext\<in>set (search_order (get_default (arg_format arguments) ''png'')).
             suffix ext name \<and> mime = get_mime_type ext"
    by blast
  show ?thesis using a b c d by (simp add: get_mime_type_table)
qed

theorem call_tool_render_artifact_item_witness:
  "fst (call_tool_render (\<lambda>c w. (Completed [(''arch.pdf'', ''Man'')], w))
       \<lparr>arg_code = Some ''from diagrams import Diagram'', arg_format = Some ''pdf'',
         arg_output_path = None\<rparr>
       \<lparr>output_dir_exists = False, files = Map.empty, tmpdirs_created = 0, executed = []\<rparr>)
     = Inr [ImageContent ''TWFu'' ''application/pdf'']
   \<and> fst (call_tool_render (\<lambda>c w. (Completed [(''arch.svg'', ''<svg/>'')], w))
       \<lparr>arg_code = Some ''from diagrams import Diagram'', arg_format = Some ''svg'',
         arg_output_path = None\<rparr>
       \<lparr>output_dir_exists = False, files = Map.empty, tmpdirs_created = 0, executed = []\<rparr>)
     = Inr [TextContent ''<svg/>'']"
proof -
  let ?e1 = "\<lambda>(c::string) (w::world). (Completed [(''arch.pdf'', ''Man'')], w)"
  let ?e2 = "\<lambda>(c::string) (w::world). (Completed [(''arch.svg'', ''<svg/>'')], w)"
  let ?w = "\<lparr>output_dir_exists = False, files = Map.empty, tmpdirs_created = 0, executed = []\<rparr>"
  let ?w1 = "\<lparr>output_dir_exists = False, files = Map.empty, tmpdirs_created = 1,
               executed = [''from diagrams import Diagram'']\<rparr>"
  let ?a1 = "\<lparr>arg_code = Some ''from diagrams import Diagram'', arg_format = Some ''pdf'',
         arg_output_path = None\<rparr>"
  let ?a2 = "\<lparr>arg_code = Some ''from diagrams import Diagram'', arg_format = Some ''svg'',
         arg_output_path = None\<rparr>"
  have r1: "render_diagram ?e1 ''from diagrams import Diagram'' ''pdf'' ?w
             = (Inr (Success ''arch.pdf'' ''Man'' ''application/pdf''), ?w1)"
    by (simp add: render_diagram_def evaluate_def search_order_def suffix_to_prefix get_mime_type_def)
  have r2: "render_diagram ?e2 ''from diagrams import Diagram'' ''svg'' ?w
             = (Inr (Success ''arch.svg'' ''<svg/>'' ''image/svg+xml''), ?w1)"
    by (simp add: render_diagram_def evaluate_def search_order_def suffix_to_prefix get_mime_type_def)
  have v1: "fst (call_tool_render ?e1 ?a1 ?w) = Inr [ImageContent ''TWFu'' ''application/pdf'']"
    using r1 by (simp add: call_tool_render_def get_default_def sublist_Cons_right
        b64encode_def b64_char_def b64_alphabet_def)
  have v2: "fst (call_tool_render ?e2 ?a2 ?w) = Inr [TextContent ''<svg/>'']"
    using r2 by (simp add: call_tool_render_def get_default_def sublist_Cons_right decode_utf8_def)
  have "last [ImageContent ''TWFu'' ''application/pdf''] = ImageContent (b64encode ''Man'') ''application/pdf''"
    using call_tool_render_artifact_item [of ?a1 ?e1 ?w "''arch.pdf''" "''Man''" "''application/pdf''" ?w1
        "[ImageContent ''TWFu'' ''application/pdf'']"] r1 v1
    by (simp add: get_default_def sublist_Cons_right)
  moreover have "last [TextContent ''<svg/>''] = TextContent ''<svg/>''
      \<and> decode_utf8 ''<svg/>'' = Some ''<svg/>''"
    using call_tool_render_artifact_item [of ?a2 ?e2 ?w "''arch.svg''" "''<svg/>''" "''image/svg+xml''" ?w1
        "[TextContent ''<svg/>'']"] r2 v2
    by (simp add: get_default_def sublist_Cons_right)
  ultimately show ?thesis using v1 v2 by simp
qed

text \<open>
  C7. After a successful render, when the handler returns a content list: if the artifact
  was saved, the list is the text item \<open>Saved to: \<close> followed by the path written,
  and then the artifact item; if no path was given, the list is the artifact item alone
  and the host is unchanged.
\<close>

theorem call_tool_render_payload_order:
  assumes "sublist ''from diagrams'' (get_default (arg_code arguments) [])
           \<or> sublist ''import diagrams'' (get_default (arg_code arguments) [])"
    and "fmt = get_default (arg_format arguments) ''png''"
    and "render_diagram exec (get_default (arg_code arguments) []) fmt w
           = (Inr (Success name content mime), w1)"
    and "call_tool_render exec arguments w = (Inr payload, w2)"
    and "item = (if fmt = ''svg'' then TextContent content
                 else ImageContent (b64encode content) mime)"
  shows "(\<forall>p. arg_output_path arguments = Some p \<and> p \<noteq> [] \<and> output_dir_exists w1
            \<longrightarrow> payload =
                  [TextContent (''Saved to: '' @ path_str (joinpath (Path ''/output'')
                     (if suffix (''.'' @ fmt) p then p else p @ ''.'' @ fmt))), item]
                \<and> w2 = w1\<lparr>files := (files w1)(path_str (joinpath (Path ''/output'')
                     (if suffix (''.'' @ fmt) p then p else p @ ''.'' @ fmt)) \<mapsto> content)\<rparr>)
       \<and> (arg_output_path arguments = None \<or> arg_output_path arguments = Some []
            \<longrightarrow> payload = [item] \<and> w2 = w1)"
proof (intro conjI allI impI)
  fix p
  assume h: "arg_output_path arguments = Some p \<and> p \<noteq> [] \<and> output_dir_exists w1"
  let ?full = "path_str (joinpath (Path ''/output'')
                     (if suffix (''.'' @ fmt) p then p else p @ ''.'' @ fmt))"
  from h have p: "arg_output_path arguments = Some p" "p \<noteq> []" "output_dir_exists w1"
    by simp_all
  have "payload = [TextContent (''Saved to: '' @ ?full), item]
        \<and> w2 = w1\<lparr>files := (files w1)(?full \<mapsto> content)\<rparr>"
    using call_tool_render_save [OF assms(1) assms(3) [unfolded assms(2)] p refl] assms(2,4,5)
    by (auto simp: decode_utf8_def split: if_splits)
  then show "payload = [TextContent (''Saved to: '' @ ?full), item]"
    and "w2 = w1\<lparr>files := (files w1)(?full \<mapsto> content)\<rparr>"
    by simp_all
next
  assume h: "arg_output_path arguments = None \<or> arg_output_path arguments = Some []"
  have "payload = [item] \<and> w2 = w1"
    using call_tool_render_no_save [OF assms(1) assms(3) [unfolded assms(2)] h] assms(2,4,5)
    by (auto simp: decode_utf8_def split: if_splits)
  then show "payload = [item]" and "w2 = w1" by simp_all
qed

theorem call_tool_render_payload_order_witness:
  "fst (call_tool_render (\<lambda>c w. (Completed [(''arch.png'', ''Man'')], w))
       \<lparr>arg_code = Some ''from diagrams import Diagram'', arg_format = None,
         arg_output_path = Some ''out/arch''\<rparr>
       \<lparr>output_dir_exists = True, files = Map.empty, tmpdirs_created = 0, executed = []\<rparr>)
     = Inr [TextContent ''Saved to: /output/out/arch.png'', ImageContent ''TWFu'' ''image/png'']
   \<and> fst (call_tool_render (\<lambda>c w. (Completed [(''arch.png'', ''Man'')], w))
       \<lparr>arg_code = Some ''from diagrams import Diagram'', arg_format = None,
         arg_output_path = None\<rparr>
       \<lparr>output_dir_exists = True, files = Map.empty, tmpdirs_created = 0, executed = []\<rparr>)
     = Inr [ImageContent ''TWFu'' ''image/png'']"
proof -
  let ?e = "\<lambda>(c::string) (w::world). (Completed [(''arch.png'', ''Man'')], w)"
  let ?w = "\<lparr>output_dir_exists = True, files = Map.empty, tmpdirs_created = 0, executed = []\<rparr>"
  let ?w1 = "\<lparr>output_dir_exists = True, files = Map.empty, tmpdirs_created = 1,
               executed = [''from diagrams import Diagram'']\<rparr>"
  let ?a1 = "\<lparr>arg_code = Some ''from diagrams import Diagram'', arg_format = None,
         arg_output_path = Some ''out/arch''\<rparr>"
  let ?a2 = "\<lparr>arg_code = Some ''from diagrams import Diagram'', arg_format = None,
         arg_output_path = None\<rparr>"
  have r: "render_diagram ?e ''from diagrams import Diagram'' ''png'' ?w
             = (Inr (Success ''arch.png'' ''Man'' ''image/png''), ?w1)"
    by (simp add: render_diagram_def evaluate_def search_order_def suffix_to_prefix get_mime_type_def)
  obtain x1 w2 where c1: "call_tool_render ?e ?a1 ?w = (x1, w2)"
    by (cases "call_tool_render ?e ?a1 ?w")
  obtain x2 w3 where c2: "call_tool_render ?e ?a2 ?w = (x2, w3)"
    by (cases "call_tool_render ?e ?a2 ?w")
  have "\<exists>payload. x1 = Inr payload"
    using c1 r by (auto simp: call_tool_render_def get_default_def Let_def sublist_Cons_right)
  then obtain p1 where p1: "x1 = Inr p1" by blast
  have "\<exists>payload. x2 = Inr payload"
    using c2 r by (auto simp: call_tool_render_def get_default_def Let_def sublist_Cons_right)
  then obtain p2 where p2: "x2 = Inr p2" by blast
  have "p1 = [TextContent ''Saved to: /output/out/arch.png'', ImageContent ''TWFu'' ''image/png'']"
    using call_tool_render_payload_order [of ?a1 "''png''" ?e ?w "''arch.png''" "''Man''" "''image/png''"
        ?w1 p1 w2 "ImageContent (b64encode ''Man'') ''image/png''",
        THEN conjunct1, rule_format, of "''out/arch''"] r c1 p1
    by (simp add: get_default_def sublist_Cons_right suffix_to_prefix path_str_def joinpath_def Path_def
        b64encode_def b64_char_def b64_alphabet_def)
  moreover have "p2 = [ImageContent ''TWFu'' ''image/png'']"
    using call_tool_render_payload_order [of ?a2 "''png''" ?e ?w "''arch.png''" "''Man''" "''image/png''"
        ?w1 p2 w3 "ImageContent (b64encode ''Man'') ''image/png''",
        THEN conjunct2] r c2 p2
    by (simp add: get_default_def sublist_Cons_right b64encode_def b64_char_def b64_alphabet_def)
  ultimately show ?thesis using c1 c2 p1 p2 by simp
qed

text \<open>
  C9. With the format \<open>svg\<close> the bytes found are decoded as UTF-8 without a guard: once
  the artifact stage is reached, the handler returns a content list if and only if the
  bytes are well-formed UTF-8, and raises \<open>UnicodeDecodeError\<close> otherwise. This happens
  for a program that leaves no \<open>.svg\<close> file but a \<open>.png\<close> file, found by the fallback scan,
  whose first byte is \<open>0x89\<close>.
\<close>

theorem call_tool_render_svg_decode_unguarded:
  assumes "sublist ''from diagrams'' (get_default (arg_code arguments) [])
           \<or> sublist ''import diagrams'' (get_default (arg_code arguments) [])"
    and "get_default (arg_format arguments) ''png'' = ''svg''"
    and "render_diagram exec (get_default (arg_code arguments) []) ''svg'' w
           = (Inr (Success name content mime), w1)"
    and "arg_output_path arguments = None \<or> arg_output_path arguments = Some []
         \<or> output_dir_exists w1"
  shows "((\<exists>payload. fst (call_tool_render exec arguments w) = Inr payload)
            \<longleftrightarrow> utf8_valid (map of_char content))
       \<and> (\<not> utf8_valid (map of_char content)
            \<longrightarrow> fst (call_tool_render exec arguments w) = Inl UnicodeDecodeError)
       \<and> fst (call_tool_render
                (\<lambda>c w. (Completed [(''diagram.png'', [CHR 0x89, CHR ''P'', CHR ''N'', CHR ''G''])], w))
                \<lparr>arg_code = Some ''from diagrams import Diagram'', arg_format = Some ''svg'',
                  arg_output_path = None\<rparr>
                \<lparr>output_dir_exists = False, files = Map.empty, tmpdirs_created = 0, executed = []\<rparr>)
           = Inl UnicodeDecodeError"
proof -
  from call_tool_render_artifact_stage [OF assms(1) assms(3) [folded assms(2)] assms(4)] assms(2)
  obtain saved where
    s: "fst (call_tool_render exec arguments w) =
          (if utf8_valid (map of_char content) then Inr (saved @ [TextContent content])
           else Inl UnicodeDecodeError)"
    by auto
  have "(\<exists>payload. fst (call_tool_render exec arguments w) = Inr payload)
            \<longleftrightarrow> utf8_valid (map of_char content)"
    using s by auto
  moreover have "\<not> utf8_valid (map of_char content)
            \<longrightarrow> fst (call_tool_render exec arguments w) = Inl UnicodeDecodeError"
    using s by auto
  moreover have "fst (call_tool_render
                (\<lambda>c w. (Completed [(''diagram.png'', [CHR 0x89, CHR ''P'', CHR ''N'', CHR ''G''])], w))
                \<lparr>arg_code = Some ''from diagrams import Diagram'', arg_format = Some ''svg'',
                  arg_output_path = None\<rparr>
                \<lparr>output_dir_exists = False, files = Map.empty, tmpdirs_created = 0, executed = []\<rparr>)
           = Inl UnicodeDecodeError"
    by (simp add: call_tool_render_def render_diagram_def evaluate_def search_order_def
        suffix_to_prefix get_mime_type_def get_default_def sublist_Cons_right decode_utf8_def)
  ultimately show ?thesis by blast
qed

theorem call_tool_render_svg_decode_unguarded_witness:
  "fst (call_tool_render
          (\<lambda>c w. (Completed [(''diagram.png'', [CHR 0xFF, CHR 0xD8])], w))
          \<lparr>arg_code = Some ''import diagrams'', arg_format = Some ''svg'',
            arg_output_path = Some ''d''\<rparr>
          \<lparr>output_dir_exists = True, files = Map.empty, tmpdirs_created = 0, executed = []\<rparr>)
     = Inl UnicodeDecodeError"
proof -
  let ?e = "\<lambda>(c::string) (w::world). (Completed [(''diagram.png'', [CHR 0xFF, CHR 0xD8])], w)"
  let ?w = "\<lparr>output_dir_exists = True, files = Map.empty, tmpdirs_created = 0, executed = []\<rparr>"
  let ?w1 = "\<lparr>output_dir_exists = True, files = Map.empty, tmpdirs_created = 1,
               executed = [''import diagrams'']\<rparr>"
  let ?a = "\<lparr>arg_code = Some ''import diagrams'', arg_format = Some ''svg'',
            arg_output_path = Some ''d''\<rparr>"
  have r: "render_diagram ?e ''import diagrams'' ''svg'' ?w
             = (Inr (Success ''diagram.png'' [CHR 0xFF, CHR 0xD8] ''image/png''), ?w1)"
    by (simp add: render_diagram_def evaluate_def search_order_def suffix_to_prefix get_mime_type_def)
  show ?thesis
    using call_tool_render_svg_decode_unguarded [of ?a ?e ?w "''diagram.png''" "[CHR 0xFF, CHR 0xD8]"
        "''image/png''" ?w1, THEN conjunct2, THEN conjunct1] r
    by (simp add: get_default_def sublist_Cons_right)
qed

end
